theory Spec2Isabelle
  imports Main "HOL-Library.Sublist" "HOL-Library.Signed_Division"
begin

section \<open>Errors\<close>

text \<open>
  Go errors are values built by \<^verbatim>\<open>errors.New\<close>, \<^verbatim>\<open>errors.Errorf\<close> and
  \<^verbatim>\<open>errors.Wrap\<close> (github.com/pkg/errors). \<open>New\<close> carries the message,
  \<open>Errorf\<close> the format string with its arguments (left unformatted), and
  \<open>Wrap\<close> the wrapped error with the added message. Errors produced by the Go
  standard library (file system, JSON, base64, HTTP) are values of the same type.
  A Go function returning \<^verbatim>\<open>(T, error)\<close> is modelled as returning a pair of the
  value and an \<open>error option\<close>, \<open>None\<close> being \<^verbatim>\<open>nil\<close>; a method that
  mutates its receiver or its argument returns the updated record.
\<close>

datatype arg = S string | D int

datatype error = New string | Errorf string "arg list" | Wrap error string

section \<open>The Go standard library, as far as registry.go calls it\<close>

text \<open>
  Strings are byte sequences (\<open>char list\<close>, one \<open>char\<close> per byte), as Go strings are.
\<close>

subsection \<open>Package strings\<close>

text \<open>\<^verbatim>\<open>strings.IndexByte\<close>: the index of the first occurrence of a byte, \<open>None\<close> for
  Go's \<^verbatim>\<open>-1\<close>.\<close>

fun Index :: "string \<Rightarrow> char \<Rightarrow> nat option" where
  "Index [] c = None"
| "Index (x # xs) c = (if x = c then Some 0 else map_option Suc (Index xs c))"

text \<open>\<^verbatim>\<open>strings.SplitN(s, sep, n)\<close> for a separator of one byte and \<open>n \<ge> 0\<close>: at most \<open>n\<close>
  substrings, the last one being the unsplit remainder; \<open>n = 0\<close> gives no substring.\<close>

fun SplitN :: "string \<Rightarrow> char \<Rightarrow> nat \<Rightarrow> string list" where
  "SplitN s sep 0 = []"
| "SplitN s sep (Suc 0) = [s]"
| "SplitN s sep (Suc (Suc n)) =
     (case Index s sep of
        None \<Rightarrow> [s]
      | Some m \<Rightarrow> take m s # SplitN (drop (Suc m) s) sep (Suc n))"

text \<open>
  \<^verbatim>\<open>unicode.IsSpace\<close>: the white-space runes of Go, each given by its UTF-8 encoding.
  They are the six ASCII characters tab, line feed, vertical tab, form feed, carriage
  return and space, then U+0085, U+00A0, U+1680, U+2000 to U+200A, U+2028, U+2029,
  U+202F, U+205F and U+3000. A byte sequence that is not valid UTF-8 decodes to the
  replacement rune, which is not white space.
\<close>

definition spaces :: "string list" where
  "spaces =
     [[CHR 0x09], [CHR 0x0A], [CHR 0x0B], [CHR 0x0C], [CHR 0x0D], [CHR 0x20],
      [CHR 0xC2, CHR 0x85], [CHR 0xC2, CHR 0xA0],
      [CHR 0xE1, CHR 0x9A, CHR 0x80],
      [CHR 0xE2, CHR 0x80, CHR 0x80], [CHR 0xE2, CHR 0x80, CHR 0x81],
      [CHR 0xE2, CHR 0x80, CHR 0x82], [CHR 0xE2, CHR 0x80, CHR 0x83],
      [CHR 0xE2, CHR 0x80, CHR 0x84], [CHR 0xE2, CHR 0x80, CHR 0x85],
      [CHR 0xE2, CHR 0x80, CHR 0x86], [CHR 0xE2, CHR 0x80, CHR 0x87],
      [CHR 0xE2, CHR 0x80, CHR 0x88], [CHR 0xE2, CHR 0x80, CHR 0x89],
      [CHR 0xE2, CHR 0x80, CHR 0x8A],
      [CHR 0xE2, CHR 0x80, CHR 0xA8], [CHR 0xE2, CHR 0x80, CHR 0xA9],
      [CHR 0xE2, CHR 0x80, CHR 0xAF],
      [CHR 0xE2, CHR 0x81, CHR 0x9F],
      [CHR 0xE3, CHR 0x80, CHR 0x80]]"

text \<open>The white-space rune a string starts with, and the one it ends with.\<close>

definition leadingSpace :: "string \<Rightarrow> string option" where
  "leadingSpace s = find (\<lambda>e. prefix e s) spaces"

definition trailingSpace :: "string \<Rightarrow> string option" where
  "trailingSpace s = find (\<lambda>e. suffix e s) spaces"

lemma spaces_nonempty: "e \<in> set spaces \<Longrightarrow> 0 < length e"
  by (auto simp add: spaces_def)

lemma leadingSpace_Some: "leadingSpace s = Some e \<Longrightarrow> e \<in> set spaces \<and> prefix e s"
  by (auto simp add: leadingSpace_def find_Some_iff)

lemma trailingSpace_Some: "trailingSpace s = Some e \<Longrightarrow> e \<in> set spaces \<and> suffix e s"
  by (auto simp add: trailingSpace_def find_Some_iff)

lemma leadingSpace_shorter: "leadingSpace s = Some e \<Longrightarrow> length s - length e < length s"
  using leadingSpace_Some [of s e] spaces_nonempty [of e]
  by (auto simp add: prefix_def)

lemma trailingSpace_shorter: "trailingSpace s = Some e \<Longrightarrow> length s - length e < length s"
  using trailingSpace_Some [of s e] spaces_nonempty [of e]
  by (auto simp add: suffix_def)

text \<open>
  \<^verbatim>\<open>strings.TrimSpace\<close>: white-space runes are removed from the front while there
  is one, then from the back while there is one.
\<close>

function TrimLeftSpace :: "string \<Rightarrow> string" where
  "TrimLeftSpace s =
     (case leadingSpace s of
        None \<Rightarrow> s
      | Some e \<Rightarrow> TrimLeftSpace (drop (length e) s))"
  by pat_completeness auto
termination
  by (relation "measure length") (auto simp add: leadingSpace_shorter)

function TrimRightSpace :: "string \<Rightarrow> string" where
  "TrimRightSpace s =
     (case trailingSpace s of
        None \<Rightarrow> s
      | Some e \<Rightarrow> TrimRightSpace (take (length s - length e) s))"
  by pat_completeness auto
termination
  by (relation "measure length") (auto simp add: trailingSpace_shorter)

declare TrimLeftSpace.simps [simp del] TrimRightSpace.simps [simp del]

definition TrimSpace :: "string \<Rightarrow> string" where
  "TrimSpace s = TrimRightSpace (TrimLeftSpace s)"

subsection \<open>Package encoding/base64\<close>

text \<open>
  \<^verbatim>\<open>base64.StdEncoding\<close>: the alphabet of RFC 4648 with \<open>=\<close> padding. Decoding
  skips carriage returns and line feeds, reads quanta of four characters, accepts
  padding only in the last quantum and nothing after it, and does not check the unused
  trailing bits. The position that \<^verbatim>\<open>CorruptInputError\<close> reports is left out.
\<close>

definition encodeStd :: string where
  "encodeStd = ''ABCDEFGHIJKLMNOPQRSTUVWXYZabcdefghijklmnopqrstuvwxyz0123456789+/''"

definition decodeMap :: "char \<Rightarrow> nat option" where
  "decodeMap c = Index encodeStd c"

definition CorruptInputError :: error where
  "CorruptInputError = New ''illegal base64 data''"

fun decodeQuanta :: "string \<Rightarrow> error + string" where
  "decodeQuanta [] = Inr []"
| "decodeQuanta (a # b # c # d # rest) =
     (case (decodeMap a, decodeMap b) of
        (Some x, Some y) \<Rightarrow>
          (if c = CHR ''='' then
             (if d = CHR ''='' \<and> rest = [] then Inr [char_of (x * 4 + y div 16)]
              else Inl CorruptInputError)
           else
             (case decodeMap c of
                None \<Rightarrow> Inl CorruptInputError
              | Some z \<Rightarrow>
                  (if d = CHR ''='' then
                     (if rest = []
                      then Inr [char_of (x * 4 + y div 16), char_of (y mod 16 * 16 + z div 4)]
                      else Inl CorruptInputError)
                   else
                     (case decodeMap d of
                        None \<Rightarrow> Inl CorruptInputError
                      | Some w \<Rightarrow>
                          (case decodeQuanta rest of
                             Inl err \<Rightarrow> Inl err
                           | Inr bs \<Rightarrow>
                               Inr (char_of (x * 4 + y div 16)
                                    # char_of (y mod 16 * 16 + z div 4)
                                    # char_of (z mod 4 * 64 + w) # bs))))))
      | _ \<Rightarrow> Inl CorruptInputError)"
| "decodeQuanta _ = Inl CorruptInputError"

definition StdEncoding_DecodeString :: "string \<Rightarrow> error + string" where
  "StdEncoding_DecodeString s =
     decodeQuanta (filter (\<lambda>c. c \<noteq> CHR 0x0D \<and> c \<noteq> CHR 0x0A) s)"

fun encodeQuanta :: "nat list \<Rightarrow> string" where
  "encodeQuanta [] = []"
| "encodeQuanta [a] =
     [encodeStd ! (a div 4), encodeStd ! (a mod 4 * 16), CHR ''='', CHR ''='']"
| "encodeQuanta [a, b] =
     [encodeStd ! (a div 4), encodeStd ! (a mod 4 * 16 + b div 16),
      encodeStd ! (b mod 16 * 4), CHR ''='']"
| "encodeQuanta (a # b # c # rest) =
     encodeStd ! (a div 4) # encodeStd ! (a mod 4 * 16 + b div 16)
     # encodeStd ! (b mod 16 * 4 + c div 64) # encodeStd ! (c mod 64) # encodeQuanta rest"

definition StdEncoding_EncodeToString :: "string \<Rightarrow> string" where
  "StdEncoding_EncodeToString s = encodeQuanta (map of_char s)"

subsection \<open>Package net/http\<close>

text \<open>
  Of \<^verbatim>\<open>http.Request\<close> and \<^verbatim>\<open>http.Response\<close> the fields that registry.go reads or
  writes. A header maps a key to the list of its values; the two keys that registry.go
  uses, \<open>Content-Type\<close> and \<open>Authorization\<close>, are in canonical form already. The body
  of a response is a stream that only the JSON decoder reads, so its type is left open.
\<close>

record Request =
  Method :: string
  URL :: string
  Header :: "string \<rightharpoonup> string list"
  Body :: string

record 'bd Response =
  StatusCode :: int
  ResponseBody :: 'bd

definition Header_Add ::
  "(string \<rightharpoonup> string list) \<Rightarrow> string \<Rightarrow> string \<Rightarrow> (string \<rightharpoonup> string list)" where
  "Header_Add h key v = h(key \<mapsto> (case h key of None \<Rightarrow> [] | Some vs \<Rightarrow> vs) @ [v])"

definition Header_Set ::
  "(string \<rightharpoonup> string list) \<Rightarrow> string \<Rightarrow> string \<Rightarrow> (string \<rightharpoonup> string list)" where
  "Header_Set h key v = h(key \<mapsto> [v])"

definition basicAuth :: "string \<Rightarrow> string \<Rightarrow> string" where
  "basicAuth username password = StdEncoding_EncodeToString (username @ '':'' @ password)"

definition SetBasicAuth :: "Request \<Rightarrow> string \<Rightarrow> string \<Rightarrow> Request" where
  "SetBasicAuth req username password =
     req\<lparr>Header := Header_Set (Header req) ''Authorization''
                      (''Basic '' @ basicAuth username password)\<rparr>"

subsection \<open>What the library does outside the program\<close>

text \<open>
  Reading a file, decoding JSON from a stream, parsing a URL and sending a request
  are parameters of the model: every theorem below holds whatever these functions
  return. \<open>Decode\<close> is \<^verbatim>\<open>json.NewDecoder(reader).Decode(&data)\<close> for the credential
  store, \<open>DecodeString\<close> is \<^verbatim>\<open>base64.StdEncoding.DecodeString\<close>, \<open>ParseError\<close> is the
  error with which \<^verbatim>\<open>http.NewRequest\<close> rejects a URL, \<open>Do\<close> is
  \<^verbatim>\<open>http.DefaultClient.Do\<close>, and \<open>DecodeToken\<close> decodes the login response into
  its \<open>token\<close> field.
\<close>

record auth_entry =
  Auth :: string

record config_data =
  Domain' :: "string \<rightharpoonup> auth_entry"

record 'rd store_lib =
  Decode :: "'rd \<Rightarrow> error + config_data"
  DecodeString :: "string \<Rightarrow> error + string"

record 'bd http_lib =
  ParseError :: "string \<Rightarrow> error option"
  Do :: "Request \<Rightarrow> error + 'bd Response"
  DecodeToken :: "'bd \<Rightarrow> error + string"

definition NewRequest :: "'bd http_lib \<Rightarrow> string \<Rightarrow> string \<Rightarrow> string \<Rightarrow> error + Request" where
  "NewRequest lib method url body =
     (case ParseError lib url of
        Some err \<Rightarrow> Inl err
      | None \<Rightarrow> Inr \<lparr>Method = method, URL = url, Header = Map.empty, Body = body\<rparr>)"

section \<open>Credential model (registry.go, lines 20--89)\<close>

type_synonym RegistryUsername = string
type_synonym RegistryToken = string
type_synonym RegistryPassword = string
type_synonym RegistryName = string

definition RegistryUsername_Validate :: "RegistryUsername \<Rightarrow> error option" where
  "RegistryUsername_Validate r = (if length r = 0 then Some (New ''username empty'') else None)"

definition RegistryPassword_Validate :: "RegistryPassword \<Rightarrow> error option" where
  "RegistryPassword_Validate r = (if length r = 0 then Some (New ''password empty'') else None)"

text \<open>\<^verbatim>\<open>RegistryPasswordFromFile\<close>; \<open>ReadFile\<close> is \<^verbatim>\<open>ioutil.ReadFile\<close>.\<close>

definition RegistryPasswordFromFile ::
  "(string \<Rightarrow> error + string) \<Rightarrow> string \<Rightarrow> RegistryPassword \<times> error option" where
  "RegistryPasswordFromFile ReadFile path =
     (case ReadFile path of
        Inl err \<Rightarrow> ('''', Some err)
      | Inr content \<Rightarrow> (TrimSpace content, None))"

definition IsDockerHub :: "RegistryName \<Rightarrow> bool" where
  "IsDockerHub r = (''docker.io'' = r)"

definition Url :: "RegistryName \<Rightarrow> string" where
  "Url r = (if IsDockerHub r then ''https://hub.docker.com'' else ''https://'' @ r)"

definition RegistryName_Validate :: "RegistryName \<Rightarrow> error option" where
  "RegistryName_Validate r = (if length r = 0 then Some (New ''registry empty'') else None)"

record Registry =
  Name :: RegistryName
  Token :: RegistryToken
  Username :: RegistryUsername
  Password :: RegistryPassword

section \<open>Credential store reader (registry.go, lines 104--135)\<close>

definition nameToDomain :: "RegistryName \<Rightarrow> string" where
  "nameToDomain name = (if IsDockerHub name then ''https://index.docker.io/v1/'' else name)"

text \<open>
  \<^verbatim>\<open>CredentialsFromDockerConfig\<close> assigns to the fields of its receiver; the model
  returns the registry as the call leaves it, together with the error.
\<close>

definition CredentialsFromDockerConfig ::
  "'rd store_lib \<Rightarrow> Registry \<Rightarrow> 'rd \<Rightarrow> Registry \<times> error option" where
  "CredentialsFromDockerConfig lib r reader =
     (case Decode lib reader of
        Inl err \<Rightarrow> (r, Some (Wrap err ''decode json failed''))
      | Inr data \<Rightarrow>
          (case Domain' data (nameToDomain (Name r)) of
             None \<Rightarrow> (r, Some (Errorf ''domain %s not found in docker config'' [S (Name r)]))
           | Some auth \<Rightarrow>
               (case DecodeString lib (Auth auth) of
                  Inl err \<Rightarrow> (r, Some (Wrap err ''base64 decode auth failed''))
                | Inr value \<Rightarrow>
                    (let parts = SplitN value (CHR '':'') 2 in
                     if length parts \<noteq> 2 then (r, Some (New ''split auth failed''))
                     else (r\<lparr>Username := parts ! 0, Password := parts ! 1\<rparr>, None)))))"

section \<open>Validation (registry.go, lines 137--148)\<close>

definition Validate :: "Registry \<Rightarrow> error option" where
  "Validate r =
     (case RegistryName_Validate (Name r) of
        Some err \<Rightarrow> Some err
      | None \<Rightarrow>
          (case RegistryUsername_Validate (Username r) of
             Some err \<Rightarrow> Some err
           | None \<Rightarrow>
               (case RegistryPassword_Validate (Password r) of
                  Some err \<Rightarrow> Some err
                | None \<Rightarrow> None)))"

section \<open>Auth protocol (registry.go, lines 150--188)\<close>

text \<open>
  The request that \<^verbatim>\<open>GetToken\<close> builds (lines 151--156): the body is the format
  string with the username and the password put in as they are, the method is POST,
  which \<^verbatim>\<open>http.NewRequest\<close> accepts, and the content type is added to the new
  request's empty header.
\<close>

definition loginRequest :: "'bd http_lib \<Rightarrow> Registry \<Rightarrow> error + Request" where
  "loginRequest lib r =
     (let b = ''{\"username\": \"'' @ Username r @ ''\", \"password\": \"'' @ Password r @ ''\"}''
      in case NewRequest lib ''POST'' (Url (Name r) @ ''/v2/users/login/'') b of
           Inl err \<Rightarrow> Inl (Wrap err ''create request failed'')
         | Inr req \<Rightarrow>
             Inr (req\<lparr>Header := Header_Add (Header req) ''Content-Type'' ''application/json''\<rparr>))"

text \<open>
  \<^verbatim>\<open>GetToken\<close> sends that request (lines 157--172). \<^verbatim>\<open>StatusCode\<close> is a Go
  \<^verbatim>\<open>int\<close>, whose division truncates towards zero (\<open>sdiv\<close>).
\<close>

definition GetToken :: "'bd http_lib \<Rightarrow> Registry \<Rightarrow> RegistryToken \<times> error option" where
  "GetToken lib r =
     (case loginRequest lib r of
        Inl err \<Rightarrow> ('''', Some err)
      | Inr req \<Rightarrow>
          (case Do lib req of
             Inl err \<Rightarrow> ('''', Some (Wrap err ''request failed''))
           | Inr resp \<Rightarrow>
               if StatusCode resp sdiv 100 \<noteq> 2
               then ('''', Some (Errorf ''status code %d != 2xx'' [D (StatusCode resp)]))
               else
                 (case DecodeToken lib (ResponseBody resp) of
                    Inl err \<Rightarrow> ('''', Some (Wrap err ''decode response failed''))
                  | Inr token \<Rightarrow> (token, None))))"

text \<open>
  \<^verbatim>\<open>SetAuth\<close> writes to the header of the request it is given; the model returns
  the request as the call leaves it, together with the error.
\<close>

definition SetAuth :: "'bd http_lib \<Rightarrow> Registry \<Rightarrow> Request \<Rightarrow> Request \<times> error option" where
  "SetAuth lib r req =
     (if IsDockerHub (Name r) then
        (case GetToken lib r of
           (token, Some err) \<Rightarrow> (req, Some (Wrap err ''get token failed''))
         | (token, None) \<Rightarrow>
             (req\<lparr>Header := Header_Add (Header req) ''Authorization'' (''JWT '' @ token)\<rparr>, None))
      else if Username r \<noteq> '''' \<and> Password r \<noteq> '''' then
        (SetBasicAuth req (Username r) (Password r), None)
      else (req, None))"

section \<open>Example values\<close>

text \<open>
  A credential store with five entries, whose blobs decode to \<open>alice:s3cr3t\<close>,
  \<open>alice:\<close>, \<open>:s3cr3t\<close>, \<open>alice:pa:ss\<close> and \<open>alice\<close>, and what the JSON decoder makes
  of it.
\<close>

definition exampleStore :: string where
  "exampleStore =
     ''{\"auths\":{\"https://index.docker.io/v1/\":{\"auth\":\"YWxpY2U6czNjcjN0\"},''
     @ ''\"registry.example.com\":{\"auth\":\"YWxpY2U6\"},''
     @ ''\"mirror.example.com\":{\"auth\":\"OnMzY3IzdA==\"},''
     @ ''\"colon.example.com\":{\"auth\":\"YWxpY2U6cGE6c3M=\"},''
     @ ''\"plain.example.com\":{\"auth\":\"YWxpY2U=\"}}}''"

definition exampleData :: config_data where
  "exampleData =
     \<lparr>Domain' =
        [''https://index.docker.io/v1/'' \<mapsto> \<lparr>Auth = ''YWxpY2U6czNjcjN0''\<rparr>,
         ''registry.example.com'' \<mapsto> \<lparr>Auth = ''YWxpY2U6''\<rparr>,
         ''mirror.example.com'' \<mapsto> \<lparr>Auth = ''OnMzY3IzdA==''\<rparr>,
         ''colon.example.com'' \<mapsto> \<lparr>Auth = ''YWxpY2U6cGE6c3M=''\<rparr>,
         ''plain.example.com'' \<mapsto> \<lparr>Auth = ''YWxpY2U=''\<rparr>]\<rparr>"

definition exampleLib :: "string store_lib" where
  "exampleLib =
     \<lparr>Decode = (\<lambda>s. if s = exampleStore then Inr exampleData
                       else Inl (New ''unexpected end of JSON input'')),
      DecodeString = StdEncoding_DecodeString\<rparr>"

text \<open>The registry value that the command line builds: the token is left empty.\<close>

definition newRegistry :: "string \<Rightarrow> string \<Rightarrow> string \<Rightarrow> Registry" where
  "newRegistry n u p = \<lparr>Name = n, Token = [], Username = u, Password = p\<rparr>"

text \<open>
  A hub that knows one account, \<open>alice\<close> with the password \<open>s3cr3t\<close>, and answers
  every other login with status 401 and a body that would still decode.
\<close>

definition exampleHttp :: "string http_lib" where
  "exampleHttp =
     \<lparr>ParseError = (\<lambda>url. None),
      Do = (\<lambda>req.
        if URL req = ''https://hub.docker.com/v2/users/login/''
           \<and> Body req = ''{\"username\": \"alice\", \"password\": \"s3cr3t\"}''
        then Inr \<lparr>StatusCode = 200, ResponseBody = ''{\"token\": \"abc123\"}''\<rparr>
        else Inr \<lparr>StatusCode = 401, ResponseBody = ''{\"token\": \"never\"}''\<rparr>),
      DecodeToken = (\<lambda>body.
        if body = ''{\"token\": \"abc123\"}'' then Inr ''abc123''
        else if body = ''{\"token\": \"never\"}'' then Inr ''never''
        else Inl (New ''invalid character''))\<rparr>"

definition exampleRequest :: Request where
  "exampleRequest =
     \<lparr>Method = ''GET'', URL = ''https://registry.example.com/v2/_catalog'',
      Header = Map.empty, Body = ''''\<rparr>"

text \<open>A file system with one secret, stored with a final line feed.\<close>

definition exampleFiles :: "string \<Rightarrow> error + string" where
  "exampleFiles path =
     (if path = ''/run/secrets/registry'' then Inr (''secret'' @ [CHR 0x0A])
      else Inl (New ''open: no such file or directory''))"

section \<open>Lemmas about the library functions\<close>

lemma Index_None_iff: "(Index s c = None) = (c \<notin> set s)"
  by (induction s) auto

lemma Index_absent: "c \<notin> set s \<Longrightarrow> Index s c = None"
  by (simp add: Index_None_iff)

lemma Index_append_first: "c \<notin> set u \<Longrightarrow> Index (u @ c # p) c = Some (length u)"
  by (induction u) auto

lemma SplitN_2_absent: "c \<notin> set s \<Longrightarrow> SplitN s c 2 = [s]"
  by (simp add: numeral_2_eq_2 Index_absent)

lemma SplitN_2_first: "c \<notin> set u \<Longrightarrow> SplitN (u @ c # p) c 2 = [u, p]"
  by (simp add: numeral_2_eq_2 Index_append_first)

lemma TrimLeftSpace_split: "\<exists>ls. set ls \<subseteq> set spaces \<and> s = concat ls @ TrimLeftSpace s"
proof (induction s rule: TrimLeftSpace.induct)
  case (1 s)
  show ?case
  proof (cases "leadingSpace s")
    case None
    then have "s = concat [] @ TrimLeftSpace s" by (simp add: TrimLeftSpace.simps)
    then show ?thesis by (metis empty_set empty_subsetI)
  next
    case (Some e)
    then have e: "e \<in> set spaces" and p: "prefix e s"
      using leadingSpace_Some by auto
    from "1.IH" [OF Some] obtain ls where
      ls: "set ls \<subseteq> set spaces"
        "drop (length e) s = concat ls @ TrimLeftSpace (drop (length e) s)" by blast
    have eq: "TrimLeftSpace s = TrimLeftSpace (drop (length e) s)"
      using Some by (simp add: TrimLeftSpace.simps)
    from p have "s = e @ drop (length e) s" by (auto simp add: prefix_def)
    with ls(2) eq have "s = concat (e # ls) @ TrimLeftSpace s" by simp
    moreover have "set (e # ls) \<subseteq> set spaces" using e ls(1) by simp
    ultimately show ?thesis by blast
  qed
qed

lemma TrimLeftSpace_no_leading: "leadingSpace (TrimLeftSpace s) = None"
proof (induction s rule: TrimLeftSpace.induct)
  case (1 s)
  show ?case
  proof (cases "leadingSpace s")
    case None
    then show ?thesis by (simp add: TrimLeftSpace.simps)
  next
    case (Some e)
    with "1.IH" [OF Some] show ?thesis by (simp add: TrimLeftSpace.simps)
  qed
qed

lemma TrimRightSpace_split: "\<exists>ts. set ts \<subseteq> set spaces \<and> s = TrimRightSpace s @ concat ts"
proof (induction s rule: TrimRightSpace.induct)
  case (1 s)
  show ?case
  proof (cases "trailingSpace s")
    case None
    then have "s = TrimRightSpace s @ concat []" by (simp add: TrimRightSpace.simps)
    then show ?thesis by (metis empty_set empty_subsetI)
  next
    case (Some e)
    then have e: "e \<in> set spaces" and p: "suffix e s"
      using trailingSpace_Some by auto
    let ?s' = "take (length s - length e) s"
    from "1.IH" [OF Some] obtain ts where
      ts: "set ts \<subseteq> set spaces" "?s' = TrimRightSpace ?s' @ concat ts" by blast
    have eq: "TrimRightSpace s = TrimRightSpace ?s'"
      using Some by (simp add: TrimRightSpace.simps)
    from p have "s = ?s' @ e" by (auto simp add: suffix_def)
    with ts(2) eq have "s = TrimRightSpace s @ concat (ts @ [e])"
      by (metis append.assoc append_Nil2 concat.simps concat_append)
    moreover have "set (ts @ [e]) \<subseteq> set spaces" using e ts(1) by simp
    ultimately show ?thesis by blast
  qed
qed

lemma TrimRightSpace_no_trailing: "trailingSpace (TrimRightSpace s) = None"
proof (induction s rule: TrimRightSpace.induct)
  case (1 s)
  show ?case
  proof (cases "trailingSpace s")
    case None
    then show ?thesis by (simp add: TrimRightSpace.simps)
  next
    case (Some e)
    with "1.IH" [OF Some] show ?thesis by (simp add: TrimRightSpace.simps)
  qed
qed

lemma leadingSpace_None_iff: "(leadingSpace s = None) = (\<forall>e \<in> set spaces. \<not> prefix e s)"
  by (auto simp add: leadingSpace_def find_None_iff)

lemma trailingSpace_None_iff: "(trailingSpace s = None) = (\<forall>e \<in> set spaces. \<not> suffix e s)"
  by (auto simp add: trailingSpace_def find_None_iff)

lemma leadingSpace_prefix_None:
  assumes "leadingSpace (a @ b) = None"
  shows "leadingSpace a = None"
  using assms prefix_prefix by (fastforce simp add: leadingSpace_None_iff)

lemma TrimSpace_split:
  "\<exists>ls ts. set ls \<subseteq> set spaces \<and> set ts \<subseteq> set spaces
     \<and> s = concat ls @ TrimSpace s @ concat ts"
proof -
  obtain ls where ls: "set ls \<subseteq> set spaces" "s = concat ls @ TrimLeftSpace s"
    using TrimLeftSpace_split by blast
  obtain ts where ts: "set ts \<subseteq> set spaces" "TrimLeftSpace s = TrimSpace s @ concat ts"
    using TrimRightSpace_split [of "TrimLeftSpace s"] by (auto simp add: TrimSpace_def)
  from ls ts show ?thesis by metis
qed

lemma TrimSpace_no_leading: "leadingSpace (TrimSpace s) = None"
proof -
  obtain ts where "TrimLeftSpace s = TrimSpace s @ concat ts"
    using TrimRightSpace_split [of "TrimLeftSpace s"] by (auto simp add: TrimSpace_def)
  with TrimLeftSpace_no_leading [of s] show ?thesis
    using leadingSpace_prefix_None by metis
qed

lemma TrimSpace_no_trailing: "trailingSpace (TrimSpace s) = None"
  by (simp add: TrimSpace_def TrimRightSpace_no_trailing)

lemma TrimSpace_secret: "TrimSpace (''secret'' @ [CHR 0x0A]) = ''secret''"
  by code_simp

lemma sdiv_100_eq_2: "((x::int) sdiv 100 = 2) = (200 \<le> x \<and> x \<le> 299)"
proof (cases "0 \<le> x")
  case True
  then have "x sdiv 100 = x div 100"
    by (cases "x = 0") (simp_all add: signed_divide_int_def sgn_if)
  then show ?thesis by simp linarith
next
  case False
  then have "x sdiv 100 = - (\<bar>x\<bar> div 100)"
    by (simp add: signed_divide_int_def sgn_if)
  moreover have "0 \<le> \<bar>x\<bar> div 100" by simp
  ultimately show ?thesis using False by linarith
qed

section \<open>The example values, evaluated\<close>

lemma decode_alice_s3cr3t: "StdEncoding_DecodeString ''YWxpY2U6czNjcjN0'' = Inr ''alice:s3cr3t''"
  by code_simp

lemma decode_alice_empty: "StdEncoding_DecodeString ''YWxpY2U6'' = Inr ''alice:''"
  by code_simp

lemma decode_empty_s3cr3t: "StdEncoding_DecodeString ''OnMzY3IzdA=='' = Inr '':s3cr3t''"
  by code_simp

lemma decode_alice_pa_ss: "StdEncoding_DecodeString ''YWxpY2U6cGE6c3M='' = Inr ''alice:pa:ss''"
  by code_simp

lemma decode_alice: "StdEncoding_DecodeString ''YWxpY2U='' = Inr ''alice''"
  by code_simp

lemma encode_bob: "StdEncoding_EncodeToString ''bob:hunter2'' = ''Ym9iOmh1bnRlcjI=''"
  by code_simp

lemma exampleLib_Decode: "Decode exampleLib exampleStore = Inr exampleData"
  by (simp add: exampleLib_def)

lemma exampleLib_DecodeString: "DecodeString exampleLib = StdEncoding_DecodeString"
  by (simp add: exampleLib_def)

lemma exampleData_lookup:
  "Domain' exampleData (nameToDomain ''docker.io'') = Some \<lparr>Auth = ''YWxpY2U6czNjcjN0''\<rparr>"
  "Domain' exampleData (nameToDomain ''registry.example.com'') = Some \<lparr>Auth = ''YWxpY2U6''\<rparr>"
  "Domain' exampleData (nameToDomain ''mirror.example.com'') = Some \<lparr>Auth = ''OnMzY3IzdA==''\<rparr>"
  "Domain' exampleData (nameToDomain ''colon.example.com'') = Some \<lparr>Auth = ''YWxpY2U6cGE6c3M=''\<rparr>"
  "Domain' exampleData (nameToDomain ''plain.example.com'') = Some \<lparr>Auth = ''YWxpY2U=''\<rparr>"
  "Domain' exampleData (nameToDomain ''other.example.com'') = None"
  by (simp_all add: exampleData_def nameToDomain_def IsDockerHub_def)

lemma loginRequest_example:
  "loginRequest exampleHttp (newRegistry ''docker.io'' u p) =
     Inr \<lparr>Method = ''POST'', URL = ''https://hub.docker.com/v2/users/login/'',
          Header = [''Content-Type'' \<mapsto> [''application/json'']],
          Body = ''{\"username\": \"'' @ u @ ''\", \"password\": \"'' @ p @ ''\"}''\<rparr>"
  by (simp add: loginRequest_def NewRequest_def exampleHttp_def newRegistry_def Url_def
      IsDockerHub_def Header_Add_def)

lemma Do_example:
  "Do exampleHttp req =
     (if URL req = ''https://hub.docker.com/v2/users/login/''
         \<and> Body req = ''{\"username\": \"alice\", \"password\": \"s3cr3t\"}''
      then Inr \<lparr>StatusCode = 200, ResponseBody = ''{\"token\": \"abc123\"}''\<rparr>
      else Inr \<lparr>StatusCode = 401, ResponseBody = ''{\"token\": \"never\"}''\<rparr>)"
  by (simp add: exampleHttp_def)

lemma DecodeToken_example:
  "DecodeToken exampleHttp ''{\"token\": \"abc123\"}'' = Inr ''abc123''"
  "DecodeToken exampleHttp ''{\"token\": \"never\"}'' = Inr ''never''"
  by (simp_all add: exampleHttp_def)

lemma GetToken_example_ok:
  "GetToken exampleHttp (newRegistry ''docker.io'' ''alice'' ''s3cr3t'') = (''abc123'', None)"
  by (simp add: GetToken_def loginRequest_example Do_example DecodeToken_example)

lemma GetToken_example_anonymous:
  "GetToken exampleHttp (newRegistry ''docker.io'' [] [])
     = ('''', Some (Errorf ''status code %d != 2xx'' [D 401]))"
  by (simp add: GetToken_def loginRequest_example Do_example DecodeToken_example)

section \<open>Auth protocol: SetAuth and GetToken\<close>

text \<open>
  Claim C1. \<open>SetAuth\<close> goes by the name of the registry. For the hub sentinel
  \<open>docker.io\<close> it logs in with \<open>GetToken\<close>, whatever the username and the password
  are: when the login fails the request is left as it was and the error is returned,
  wrapped; when it succeeds the value \<open>JWT\<close> followed by the token is added to the
  \<open>Authorization\<close> header. For any other name with a non-empty username and a
  non-empty password, the \<open>Authorization\<close> header is set to HTTP basic auth. In the
  remaining case the request is left as it was and no error is returned.
\<close>

theorem SetAuth_by_registry_name:
  "(Name r = ''docker.io'' \<longrightarrow>
      (\<forall>token err. GetToken lib r = (token, Some err) \<longrightarrow>
         SetAuth lib r req = (req, Some (Wrap err ''get token failed'')))
    \<and> (\<forall>token. GetToken lib r = (token, None) \<longrightarrow>
         SetAuth lib r req =
           (req\<lparr>Header := (Header req)(''Authorization'' \<mapsto>
                    (case Header req ''Authorization'' of None \<Rightarrow> [] | Some vs \<Rightarrow> vs)
                    @ [''JWT '' @ token])\<rparr>, None)))
   \<and> (Name r \<noteq> ''docker.io'' \<and> Username r \<noteq> [] \<and> Password r \<noteq> [] \<longrightarrow>
        SetAuth lib r req =
          (req\<lparr>Header := (Header req)(''Authorization'' \<mapsto>
                   [''Basic '' @ StdEncoding_EncodeToString (Username r @ '':'' @ Password r)])\<rparr>,
           None))
   \<and> (Name r \<noteq> ''docker.io'' \<and> (Username r = [] \<or> Password r = []) \<longrightarrow>
        SetAuth lib r req = (req, None))"
  by (auto simp add: SetAuth_def IsDockerHub_def SetBasicAuth_def basicAuth_def
      Header_Add_def Header_Set_def)

theorem SetAuth_by_registry_name_witness:
  "SetAuth exampleHttp (newRegistry ''docker.io'' ''alice'' ''s3cr3t'') exampleRequest
     = (exampleRequest\<lparr>Header := [''Authorization'' \<mapsto> [''JWT abc123'']]\<rparr>, None)
   \<and> SetAuth exampleHttp (newRegistry ''docker.io'' [] []) exampleRequest
     = (exampleRequest,
        Some (Wrap (Errorf ''status code %d != 2xx'' [D 401]) ''get token failed''))
   \<and> SetAuth exampleHttp (newRegistry ''registry.example.com'' ''bob'' ''hunter2'') exampleRequest
     = (exampleRequest\<lparr>Header := [''Authorization'' \<mapsto> [''Basic Ym9iOmh1bnRlcjI='']]\<rparr>,
        None)
   \<and> SetAuth exampleHttp (newRegistry ''registry.example.com'' ''bob'' []) exampleRequest
     = (exampleRequest, None)"
  using
    SetAuth_by_registry_name
      [of "newRegistry ''docker.io'' ''alice'' ''s3cr3t''" exampleHttp exampleRequest]
    SetAuth_by_registry_name
      [of "newRegistry ''docker.io'' [] []" exampleHttp exampleRequest]
    SetAuth_by_registry_name
      [of "newRegistry ''registry.example.com'' ''bob'' ''hunter2''" exampleHttp exampleRequest]
    SetAuth_by_registry_name
      [of "newRegistry ''registry.example.com'' ''bob'' []" exampleHttp exampleRequest]
    GetToken_example_ok GetToken_example_anonymous encode_bob
  by (simp add: newRegistry_def exampleRequest_def)

text \<open>
  Claim C2. Once the login request has been sent and answered, \<open>GetToken\<close> returns an
  error and the empty token whenever the status code is below 200 or above 299,
  whatever decoding the body would give; for a status code from 200 to 299 its result
  is that of decoding the body.
\<close>

theorem GetToken_status_code:
  assumes "loginRequest lib r = Inr req" and "Do lib req = Inr resp"
  shows "(StatusCode resp < 200 \<or> 299 < StatusCode resp \<longrightarrow>
            GetToken lib r = ('''', Some (Errorf ''status code %d != 2xx'' [D (StatusCode resp)])))
       \<and> (200 \<le> StatusCode resp \<and> StatusCode resp \<le> 299 \<longrightarrow>
            GetToken lib r =
              (case DecodeToken lib (ResponseBody resp) of
                 Inl err \<Rightarrow> ('''', Some (Wrap err ''decode response failed''))
               | Inr token \<Rightarrow> (token, None)))"
  using assms by (auto simp add: GetToken_def sdiv_100_eq_2)

theorem GetToken_status_code_witness:
  "GetToken exampleHttp (newRegistry ''docker.io'' ''alice'' ''s3cr3t'') = (''abc123'', None)
   \<and> DecodeToken exampleHttp ''{\"token\": \"never\"}'' = Inr ''never''
   \<and> GetToken exampleHttp (newRegistry ''docker.io'' ''alice'' ''wrong'')
       = ('''', Some (Errorf ''status code %d != 2xx'' [D 401]))"
proof -
  have ok: "Do exampleHttp
      \<lparr>Method = ''POST'', URL = ''https://hub.docker.com/v2/users/login/'',
       Header = [''Content-Type'' \<mapsto> [''application/json'']],
       Body = ''{\"username\": \"'' @ ''alice'' @ ''\", \"password\": \"'' @ ''s3cr3t'' @ ''\"}''\<rparr>
      = Inr \<lparr>StatusCode = 200, ResponseBody = ''{\"token\": \"abc123\"}''\<rparr>"
    by (simp add: Do_example)
  have no: "Do exampleHttp
      \<lparr>Method = ''POST'', URL = ''https://hub.docker.com/v2/users/login/'',
       Header = [''Content-Type'' \<mapsto> [''application/json'']],
       Body = ''{\"username\": \"'' @ ''alice'' @ ''\", \"password\": \"'' @ ''wrong'' @ ''\"}''\<rparr>
      = Inr \<lparr>StatusCode = 401, ResponseBody = ''{\"token\": \"never\"}''\<rparr>"
    by (simp add: Do_example)
  from GetToken_status_code [OF loginRequest_example ok]
    GetToken_status_code [OF loginRequest_example no]
  show ?thesis by (simp add: DecodeToken_example)
qed

text \<open>
  Claim C4. The login request is a POST to the hub's \<open>/v2/users/login/\<close> with the
  content type \<open>application/json\<close>, but its body is the format string with the two
  credentials put in unescaped. For a password with a double quote in it the quote
  ends the JSON string early and the body is not JSON; and two different pairs of
  credentials, one with the text between its username and its password moved into
  the password, the other with it moved into the username, give the same request, so
  no reading of the body returns the credentials of both.
\<close>

theorem loginRequest_body_unescaped:
  "loginRequest exampleHttp (newRegistry ''docker.io'' ''alice'' ''pa\"ss'') =
     Inr \<lparr>Method = ''POST'', URL = ''https://hub.docker.com/v2/users/login/'',
          Header = [''Content-Type'' \<mapsto> [''application/json'']],
          Body = ''{\"username\": \"alice\", \"password\": \"pa\"ss\"}''\<rparr>
   \<and> loginRequest exampleHttp (newRegistry ''docker.io'' ''x'' ''y\", \"password\": \"z'')
       = loginRequest exampleHttp (newRegistry ''docker.io'' ''x\", \"password\": \"y'' ''z'')"
  by (simp add: loginRequest_example)

section \<open>Validation\<close>

text \<open>
  Claim C3. \<open>Validate\<close> returns an error if and only if at least one of the name, the
  username and the password of the registry is the empty string; with all three
  non-empty it returns no error.
\<close>

theorem Validate_error_iff_empty:
  "(Validate r \<noteq> None) = (Name r = [] \<or> Username r = [] \<or> Password r = [])"
  by (simp add: Validate_def RegistryName_Validate_def RegistryUsername_Validate_def
      RegistryPassword_Validate_def)

theorem Validate_error_iff_empty_witness:
  "Validate (newRegistry ''docker.io'' ''alice'' ''s3cr3t'') = None
   \<and> Validate (newRegistry ''docker.io'' ''alice'' []) \<noteq> None"
  using Validate_error_iff_empty [of "newRegistry ''docker.io'' ''alice'' ''s3cr3t''"]
    Validate_error_iff_empty [of "newRegistry ''docker.io'' ''alice'' []"]
  by (simp add: newRegistry_def)

section \<open>Registry URL\<close>

text \<open>
  Claim C7. For every registry name other than the hub sentinel \<open>docker.io\<close>, \<open>Url\<close> is
  \<open>https://\<close> followed by the name; for the sentinel it is the fixed public-hub URL.
  The sentinel is recognised by exact string equality: no case folding and no trimming.
\<close>

theorem Url_cases:
  "(r \<noteq> ''docker.io'' \<longrightarrow> Url r = ''https://'' @ r)
   \<and> Url ''docker.io'' = ''https://hub.docker.com''
   \<and> IsDockerHub r = (r = ''docker.io'')"
  by (auto simp add: Url_def IsDockerHub_def)

theorem Url_cases_witness:
  "''Docker.io'' \<noteq> ''docker.io'' \<and> Url ''Docker.io'' = ''https://Docker.io''
   \<and> Url ''docker.io'' = ''https://hub.docker.com''
   \<and> \<not> IsDockerHub ''Docker.io''"
  using Url_cases [of "''Docker.io''"] by simp

section \<open>Password file\<close>

text \<open>
  Claim C8. When the file can be read, \<open>RegistryPasswordFromFile\<close> returns no error and
  a password such that the content of the file is a sequence of white-space
  characters, then the password, then a sequence of white-space characters, and such
  that the password neither starts nor ends with a white-space character: the white
  space around the content, line feeds included, is removed and everything between is
  kept. The content \<open>secret\<close> followed by a line feed gives the password \<open>secret\<close>.
  When the file cannot be read, the error of the read and the empty password are
  returned.
\<close>

theorem RegistryPasswordFromFile_trimmed:
  "(\<forall>content. ReadFile path = Inr content \<longrightarrow>
       snd (RegistryPasswordFromFile ReadFile path) = None
     \<and> (\<exists>ls ts. set ls \<subseteq> set spaces \<and> set ts \<subseteq> set spaces
            \<and> content = concat ls @ fst (RegistryPasswordFromFile ReadFile path) @ concat ts)
     \<and> (\<forall>e \<in> set spaces.
            \<not> prefix e (fst (RegistryPasswordFromFile ReadFile path))
          \<and> \<not> suffix e (fst (RegistryPasswordFromFile ReadFile path))))
   \<and> (ReadFile path = Inr (''secret'' @ [CHR 0x0A]) \<longrightarrow>
        RegistryPasswordFromFile ReadFile path = (''secret'', None))
   \<and> (\<forall>err. ReadFile path = Inl err \<longrightarrow>
        RegistryPasswordFromFile ReadFile path = ([], Some err))"
proof -
  have "\<forall>e \<in> set spaces. \<not> prefix e (TrimSpace c) \<and> \<not> suffix e (TrimSpace c)" for c
    using TrimSpace_no_leading [of c] TrimSpace_no_trailing [of c]
    by (simp add: leadingSpace_None_iff trailingSpace_None_iff)
  then show ?thesis
    using TrimSpace_split TrimSpace_secret
    by (simp add: RegistryPasswordFromFile_def)
qed

theorem RegistryPasswordFromFile_trimmed_witness:
  "exampleFiles ''/run/secrets/registry'' = Inr (''secret'' @ [CHR 0x0A])
   \<and> RegistryPasswordFromFile exampleFiles ''/run/secrets/registry'' = (''secret'', None)
   \<and> exampleFiles ''/run/secrets/missing'' = Inl (New ''open: no such file or directory'')
   \<and> RegistryPasswordFromFile exampleFiles ''/run/secrets/missing''
       = ([], Some (New ''open: no such file or directory''))"
proof -
  note found = RegistryPasswordFromFile_trimmed [of exampleFiles "''/run/secrets/registry''"]
  note missing = RegistryPasswordFromFile_trimmed [of exampleFiles "''/run/secrets/missing''"]
  have r: "exampleFiles ''/run/secrets/registry'' = Inr (''secret'' @ [CHR 0x0A])"
    by (simp add: exampleFiles_def)
  have m: "exampleFiles ''/run/secrets/missing'' = Inl (New ''open: no such file or directory'')"
    by (simp add: exampleFiles_def)
  from found r have 1:
    "RegistryPasswordFromFile exampleFiles ''/run/secrets/registry'' = (''secret'', None)"
    by blast
  from missing m have 2:
    "RegistryPasswordFromFile exampleFiles ''/run/secrets/missing''
       = ([], Some (New ''open: no such file or directory''))"
    by blast
  from r 1 m 2 show ?thesis by blast
qed

section \<open>Credential store reader\<close>

text \<open>
  Claim C5. When the store has been decoded, the entry of the registry found and its
  blob decoded, the extraction splits the decoded blob at its first colon: a blob
  without a colon gives the error \<open>split auth failed\<close> and leaves the registry as it
  was; a blob that is \<open>u\<close>, a colon and \<open>p\<close>, with no colon in \<open>u\<close>, gives the username
  \<open>u\<close> and the password \<open>p\<close>, whatever colons \<open>p\<close> contains.
\<close>

theorem CredentialsFromDockerConfig_split_at_first_colon:
  assumes "Decode lib reader = Inr data"
    and "Domain' data (nameToDomain (Name r)) = Some auth"
    and "DecodeString lib (Auth auth) = Inr v"
  shows "(CHR '':'' \<notin> set v \<longrightarrow>
           CredentialsFromDockerConfig lib r reader = (r, Some (New ''split auth failed'')))
       \<and> (\<forall>u p. v = u @ '':'' @ p \<and> CHR '':'' \<notin> set u \<longrightarrow>
           CredentialsFromDockerConfig lib r reader = (r\<lparr>Username := u, Password := p\<rparr>, None))"
  using assms
  by (auto simp add: CredentialsFromDockerConfig_def SplitN_2_absent SplitN_2_first)

theorem CredentialsFromDockerConfig_split_at_first_colon_witness:
  "CredentialsFromDockerConfig exampleLib (newRegistry ''plain.example.com'' ''old'' ''old'')
      exampleStore
     = (newRegistry ''plain.example.com'' ''old'' ''old'', Some (New ''split auth failed''))
   \<and> CredentialsFromDockerConfig exampleLib (newRegistry ''colon.example.com'' ''old'' ''old'')
      exampleStore
     = (newRegistry ''colon.example.com'' ''alice'' ''pa:ss'', None)"
proof -
  have plain:
    "Domain' exampleData (nameToDomain (Name (newRegistry ''plain.example.com'' ''old'' ''old'')))
      = Some \<lparr>Auth = ''YWxpY2U=''\<rparr>"
    by (simp add: newRegistry_def exampleData_lookup)
  have colon:
    "Domain' exampleData (nameToDomain (Name (newRegistry ''colon.example.com'' ''old'' ''old'')))
      = Some \<lparr>Auth = ''YWxpY2U6cGE6c3M=''\<rparr>"
    by (simp add: newRegistry_def exampleData_lookup)
  have d1: "DecodeString exampleLib (Auth \<lparr>Auth = ''YWxpY2U=''\<rparr>) = Inr ''alice''"
    by (simp add: exampleLib_DecodeString decode_alice)
  have d2: "DecodeString exampleLib (Auth \<lparr>Auth = ''YWxpY2U6cGE6c3M=''\<rparr>) = Inr ''alice:pa:ss''"
    by (simp add: exampleLib_DecodeString decode_alice_pa_ss)
  note no_colon =
    CredentialsFromDockerConfig_split_at_first_colon [OF exampleLib_Decode plain d1]
  note with_colon =
    CredentialsFromDockerConfig_split_at_first_colon [OF exampleLib_Decode colon d2,
      THEN conjunct2, rule_format, of "''alice''" "''pa:ss''"]
  from no_colon with_colon show ?thesis by (simp add: newRegistry_def)
qed

text \<open>
  Claim C6, amended. When the store has been decoded, the extraction looks up the key
  that is \<open>https://index.docker.io/v1/\<close> for the hub sentinel and the name itself for
  any other name. It returns the error that the domain was not found exactly when that
  key is absent from the decoded map, and then it leaves the registry as it was. With
  the key present the extraction can still fail, with another error: the blob may not
  be base64 or may have no colon.
\<close>

theorem CredentialsFromDockerConfig_domain_not_found:
  assumes "Decode lib reader = Inr data"
  shows "(snd (CredentialsFromDockerConfig lib r reader)
            = Some (Errorf ''domain %s not found in docker config'' [S (Name r)]))
         = (Domain' data
              (if Name r = ''docker.io'' then ''https://index.docker.io/v1/'' else Name r) = None)
       \<and> (Domain' data
             (if Name r = ''docker.io'' then ''https://index.docker.io/v1/'' else Name r) = None
            \<longrightarrow> fst (CredentialsFromDockerConfig lib r reader) = r)"
  using assms
  by (auto simp add: CredentialsFromDockerConfig_def nameToDomain_def IsDockerHub_def Let_def
      split: sum.split option.split)

theorem CredentialsFromDockerConfig_domain_not_found_witness:
  "CredentialsFromDockerConfig exampleLib (newRegistry ''other.example.com'' ''old'' ''old'')
      exampleStore
     = (newRegistry ''other.example.com'' ''old'' ''old'',
        Some (Errorf ''domain %s not found in docker config'' [S ''other.example.com'']))
   \<and> snd (CredentialsFromDockerConfig exampleLib (newRegistry ''docker.io'' ''old'' ''old'')
        exampleStore)
     \<noteq> Some (Errorf ''domain %s not found in docker config'' [S ''docker.io''])"
proof -
  note absent = CredentialsFromDockerConfig_domain_not_found
    [OF exampleLib_Decode, of "newRegistry ''other.example.com'' ''old'' ''old''"]
  note present = CredentialsFromDockerConfig_domain_not_found
    [OF exampleLib_Decode, of "newRegistry ''docker.io'' ''old'' ''old''"]
  have 1: "Domain' exampleData ''other.example.com'' = None"
    using exampleData_lookup(6) by (simp add: nameToDomain_def IsDockerHub_def)
  have 2: "Domain' exampleData ''https://index.docker.io/v1/'' \<noteq> None"
    using exampleData_lookup(1) by (simp add: nameToDomain_def IsDockerHub_def)
  from absent 1 have
    "snd (CredentialsFromDockerConfig exampleLib (newRegistry ''other.example.com'' ''old'' ''old'')
        exampleStore)
      = Some (Errorf ''domain %s not found in docker config'' [S ''other.example.com''])"
    "fst (CredentialsFromDockerConfig exampleLib (newRegistry ''other.example.com'' ''old'' ''old'')
        exampleStore)
      = newRegistry ''other.example.com'' ''old'' ''old''"
    by (simp_all add: newRegistry_def)
  then have 3:
    "CredentialsFromDockerConfig exampleLib (newRegistry ''other.example.com'' ''old'' ''old'')
        exampleStore
      = (newRegistry ''other.example.com'' ''old'' ''old'',
         Some (Errorf ''domain %s not found in docker config'' [S ''other.example.com'']))"
    by (simp add: prod_eq_iff)
  from present 2 have 4:
    "snd (CredentialsFromDockerConfig exampleLib (newRegistry ''docker.io'' ''old'' ''old'')
        exampleStore)
      \<noteq> Some (Errorf ''domain %s not found in docker config'' [S ''docker.io''])"
    by (simp add: newRegistry_def)
  from 3 4 show ?thesis by blast
qed

text \<open>
  Claim C6 as it was stated, that the extraction fails exactly when the key is absent,
  does not hold: the example store has the key \<open>plain.example.com\<close>, whose blob
  \<open>YWxpY2U=\<close> decodes to \<open>alice\<close>, and the extraction for that registry fails all the
  same, with \<open>split auth failed\<close>, and leaves the credentials as they were.
\<close>

theorem CredentialsFromDockerConfig_fails_with_key_present:
  "Decode exampleLib exampleStore = Inr exampleData
   \<and> nameToDomain ''plain.example.com'' = ''plain.example.com''
   \<and> Domain' exampleData ''plain.example.com'' = Some \<lparr>Auth = ''YWxpY2U=''\<rparr>
   \<and> CredentialsFromDockerConfig exampleLib (newRegistry ''plain.example.com'' ''old'' ''old'')
        exampleStore
     = (newRegistry ''plain.example.com'' ''old'' ''old'', Some (New ''split auth failed''))"
proof -
  have key: "nameToDomain ''plain.example.com'' = ''plain.example.com''"
    by (simp add: nameToDomain_def IsDockerHub_def)
  have entry: "Domain' exampleData ''plain.example.com'' = Some \<lparr>Auth = ''YWxpY2U=''\<rparr>"
    using exampleData_lookup(5) by (simp only: key)
  have blob: "DecodeString exampleLib ''YWxpY2U='' = Inr ''alice''"
    by (simp add: exampleLib_DecodeString decode_alice)
  have split: "SplitN ''alice'' (CHR '':'') 2 = [''alice'']"
    by (simp add: SplitN_2_absent)
  have "CredentialsFromDockerConfig exampleLib (newRegistry ''plain.example.com'' ''old'' ''old'')
        exampleStore
     = (newRegistry ''plain.example.com'' ''old'' ''old'', Some (New ''split auth failed''))"
    by (simp add: CredentialsFromDockerConfig_def exampleLib_Decode newRegistry_def key entry
        blob split)
  with exampleLib_Decode key entry show ?thesis by blast
qed

text \<open>
  Claim C9. The extraction changes no field of the registry but the username and the
  password: the name and the token are those it was called with, and the registry
  returned is the one given with at most these two fields replaced. Whenever it
  returns an error (the JSON does not decode, the domain key is missing, the blob is
  not base64, the blob has no colon) the registry is returned unchanged.
\<close>

theorem CredentialsFromDockerConfig_frame:
  "Name (fst (CredentialsFromDockerConfig lib r reader)) = Name r
   \<and> Token (fst (CredentialsFromDockerConfig lib r reader)) = Token r
   \<and> fst (CredentialsFromDockerConfig lib r reader)
       = r\<lparr>Username := Username (fst (CredentialsFromDockerConfig lib r reader)),
            Password := Password (fst (CredentialsFromDockerConfig lib r reader))\<rparr>
   \<and> (snd (CredentialsFromDockerConfig lib r reader) \<noteq> None \<longrightarrow>
        fst (CredentialsFromDockerConfig lib r reader) = r)"
  by (simp add: CredentialsFromDockerConfig_def Let_def split: sum.split option.split)

theorem CredentialsFromDockerConfig_frame_witness:
  "Name (fst (CredentialsFromDockerConfig exampleLib
      \<lparr>Name = ''docker.io'', Token = ''t0'', Username = ''old'', Password = ''old''\<rparr>
      exampleStore)) = ''docker.io''
   \<and> Token (fst (CredentialsFromDockerConfig exampleLib
      \<lparr>Name = ''docker.io'', Token = ''t0'', Username = ''old'', Password = ''old''\<rparr>
      exampleStore)) = ''t0''
   \<and> snd (CredentialsFromDockerConfig exampleLib
      \<lparr>Name = ''plain.example.com'', Token = ''t0'', Username = ''old'', Password = ''old''\<rparr>
      exampleStore) \<noteq> None
   \<and> fst (CredentialsFromDockerConfig exampleLib
      \<lparr>Name = ''plain.example.com'', Token = ''t0'', Username = ''old'', Password = ''old''\<rparr>
      exampleStore)
     = \<lparr>Name = ''plain.example.com'', Token = ''t0'', Username = ''old'', Password = ''old''\<rparr>"
proof -
  let ?hub = "\<lparr>Name = ''docker.io'', Token = ''t0'', Username = ''old'', Password = ''old''\<rparr>"
  let ?plain =
    "\<lparr>Name = ''plain.example.com'', Token = ''t0'', Username = ''old'', Password = ''old''\<rparr>"
  have failed: "snd (CredentialsFromDockerConfig exampleLib ?plain exampleStore) \<noteq> None"
    by (simp add: CredentialsFromDockerConfig_def exampleLib_Decode exampleData_lookup
        exampleLib_DecodeString decode_alice SplitN_2_absent)
  from CredentialsFromDockerConfig_frame [of exampleLib ?hub exampleStore]
    CredentialsFromDockerConfig_frame [of exampleLib ?plain exampleStore] failed
  show ?thesis by simp
qed

text \<open>
  Claim C10. A store entry whose decoded blob has a colon but nothing before it, or
  nothing after it, is accepted: the extraction succeeds and sets the empty username
  or the empty password, and \<open>Validate\<close> then rejects the registry. The blobs
  \<open>YWxpY2U6\<close> (\<open>alice:\<close>) and \<open>OnMzY3IzdA==\<close> (\<open>:s3cr3t\<close>) are such entries.
\<close>

theorem CredentialsFromDockerConfig_empty_part:
  assumes "Decode lib reader = Inr data"
    and "Domain' data (nameToDomain (Name r)) = Some auth"
    and "DecodeString lib (Auth auth) = Inr (u @ '':'' @ p)"
    and "CHR '':'' \<notin> set u"
    and "u = [] \<or> p = []"
  shows "CredentialsFromDockerConfig lib r reader = (r\<lparr>Username := u, Password := p\<rparr>, None)
       \<and> Validate (r\<lparr>Username := u, Password := p\<rparr>) \<noteq> None"
  using assms
  by (auto simp add: CredentialsFromDockerConfig_def SplitN_2_first Validate_def
      RegistryName_Validate_def RegistryUsername_Validate_def RegistryPassword_Validate_def
      split: option.split)

theorem CredentialsFromDockerConfig_empty_part_witness:
  "CredentialsFromDockerConfig exampleLib (newRegistry ''registry.example.com'' ''old'' ''old'')
      exampleStore
     = (newRegistry ''registry.example.com'' ''alice'' [], None)
   \<and> Validate (newRegistry ''registry.example.com'' ''alice'' []) = Some (New ''password empty'')
   \<and> CredentialsFromDockerConfig exampleLib (newRegistry ''mirror.example.com'' ''old'' ''old'')
      exampleStore
     = (newRegistry ''mirror.example.com'' [] ''s3cr3t'', None)
   \<and> Validate (newRegistry ''mirror.example.com'' [] ''s3cr3t'') = Some (New ''username empty'')"
proof -
  have k1:
    "Domain' exampleData
       (nameToDomain (Name (newRegistry ''registry.example.com'' ''old'' ''old'')))
      = Some \<lparr>Auth = ''YWxpY2U6''\<rparr>"
    by (simp add: newRegistry_def exampleData_lookup)
  have k2:
    "Domain' exampleData
       (nameToDomain (Name (newRegistry ''mirror.example.com'' ''old'' ''old'')))
      = Some \<lparr>Auth = ''OnMzY3IzdA==''\<rparr>"
    by (simp add: newRegistry_def exampleData_lookup)
  have d1: "DecodeString exampleLib (Auth \<lparr>Auth = ''YWxpY2U6''\<rparr>) = Inr (''alice'' @ '':'' @ [])"
    by (simp add: exampleLib_DecodeString decode_alice_empty)
  have d2: "DecodeString exampleLib (Auth \<lparr>Auth = ''OnMzY3IzdA==''\<rparr>) = Inr ([] @ '':'' @ ''s3cr3t'')"
    by (simp add: exampleLib_DecodeString decode_empty_s3cr3t)
  have c1: "CHR '':'' \<notin> set ''alice''" by simp
  have c2: "CHR '':'' \<notin> set []" by simp
  have e1: "''alice'' = [] \<or> ([]::string) = []" by simp
  have e2: "([]::string) = [] \<or> ''s3cr3t'' = []" by simp
  from CredentialsFromDockerConfig_empty_part [OF exampleLib_Decode k1 d1 c1 e1]
    CredentialsFromDockerConfig_empty_part [OF exampleLib_Decode k2 d2 c2 e2]
  show ?thesis
    by (simp add: newRegistry_def Validate_def RegistryName_Validate_def
        RegistryUsername_Validate_def RegistryPassword_Validate_def)
qed

end
